theory Spec2Isabelle
  imports Main "HOL-Library.Word"
begin

unbundle bit_operations_syntax

section \<open>libcork: include/libcork/core/byte-order.h\<close>

text \<open>
  The header consists of preprocessor conditionals and function-like macros. A macro is
  modelled as a function from the value of its argument expression to the value of its
  expansion; values of C integer expressions are mathematical integers (\<open>int\<close>), and every
  cast, promotion, mask and shift of the expansion is carried out on a machine word of
  the width C gives it (\<open>unsigned int\<close> is 32 bits wide on both platforms the header
  knows, Linux and Mac OS X). The argument is taken to be free of side effects.

  The swap macros write their cast in front of the bare parameter, \<open>(uint16_t) __u16\<close>
  with no parentheses round \<open>__u16\<close>. For an argument that is a primary expression (a
  constant, a variable, a parenthesised expression) the cast applies to the argument,
  and the expansion is a function of the argument's value: these are the functions
  \<open>CORK_SWAP_UINT16\<close>, \<open>CORK_SWAP_UINT32\<close>, \<open>CORK_SWAP_UINT64\<close>. For an argument
  with an operator at its top the cast applies to the left operand alone; the
  functions \<open>CORK_SWAP_UINT16_of_arg\<close>, \<open>CORK_SWAP_UINT32_of_arg\<close>,
  \<open>CORK_SWAP_UINT64_of_arg\<close> give the expansion for such arguments.
\<close>

subsection \<open>Endianness detection\<close>

definition CORK_BIG_ENDIAN :: int where
  "CORK_BIG_ENDIAN = 4321"

definition CORK_LITTLE_ENDIAN :: int where
  "CORK_LITTLE_ENDIAN = 1234"

text \<open>
  What the preprocessor knows when it reaches the header: which of the platform macros
  are defined, and the values that \<open>__BYTE_ORDER\<close>, \<open>__BIG_ENDIAN\<close>, \<open>__LITTLE_ENDIAN\<close>
  have after the system header \<open>endian.h\<close> (Linux) and that \<open>BYTE_ORDER\<close>, \<open>BIG_ENDIAN\<close>,
  \<open>LITTLE_ENDIAN\<close> have after \<open>machine/endian.h\<close> (Mac OS X). The two system headers
  are not part of the library, so their values are parameters. The preprocessor
  computes in \<open>intmax_t\<close> and \<open>uintmax_t\<close>, 64 bits wide on both platforms, and \<open>==\<close>
  converts a signed operand that meets an unsigned one; so a value is kept as its
  64-bit pattern, and \<open>==\<close> is equality of patterns.
\<close>

record platform =
  defined_linux :: bool
  defined_APPLE :: bool
  defined_MACH :: bool
  endian_h_BYTE_ORDER :: "64 word"
  endian_h_BIG_ENDIAN :: "64 word"
  endian_h_LITTLE_ENDIAN :: "64 word"
  machine_endian_h_BYTE_ORDER :: "64 word"
  machine_endian_h_BIG_ENDIAN :: "64 word"
  machine_endian_h_LITTLE_ENDIAN :: "64 word"

text \<open>The only diagnostic of the header: \<open>#error "Cannot determine system endianness"\<close>.\<close>

datatype error = Cannot_determine_system_endianness

text \<open>
  The first conditional group (\<open>#if defined(__linux) ... #elif defined(__APPLE__) &&
  defined(__MACH__) ... #endif\<close>). The result is the definition of
  \<open>CORK_HOST_ENDIANNESS\<close> it leaves behind: \<open>Some\<close> value, or \<open>None\<close> when no
  \<open>#define\<close> was reached; \<open>Inl\<close> is a halted compilation.
\<close>

definition detect_CORK_HOST_ENDIANNESS :: "platform \<Rightarrow> error + int option" where
  "detect_CORK_HOST_ENDIANNESS p =
     (if defined_linux p then
        (if endian_h_BYTE_ORDER p = endian_h_BIG_ENDIAN p then Inr (Some CORK_BIG_ENDIAN)
         else if endian_h_BYTE_ORDER p = endian_h_LITTLE_ENDIAN p
           then Inr (Some CORK_LITTLE_ENDIAN)
         else Inl Cannot_determine_system_endianness)
      else if defined_APPLE p \<and> defined_MACH p then
        (if machine_endian_h_BYTE_ORDER p = machine_endian_h_BIG_ENDIAN p
           then Inr (Some CORK_BIG_ENDIAN)
         else if machine_endian_h_BYTE_ORDER p = machine_endian_h_LITTLE_ENDIAN p
           then Inr (Some CORK_LITTLE_ENDIAN)
         else Inl Cannot_determine_system_endianness)
      else Inr None)"

text \<open>
  In the controlling expression of \<open>#if\<close> an identifier that is not a defined macro is
  replaced by 0.
\<close>

definition cpp_value :: "int option \<Rightarrow> int" where
  "cpp_value m = (case m of None \<Rightarrow> 0 | Some v \<Rightarrow> v)"

text \<open>The four endianness macros as the header leaves them (\<open>None\<close>: not defined).\<close>

record endianness_macros =
  CORK_HOST_ENDIANNESS :: "int option"
  CORK_OTHER_ENDIANNESS :: "int option"
  CORK_HOST_ENDIANNESS_NAME :: "string option"
  CORK_OTHER_ENDIANNESS_NAME :: "string option"

text \<open>
  The second conditional group (\<open>#if CORK_HOST_ENDIANNESS == CORK_BIG_ENDIAN ... #elif
  CORK_HOST_ENDIANNESS == CORK_LITTLE_ENDIAN ... #endif\<close>), which has no \<open>#else\<close>.
\<close>

definition define_other_endianness :: "int option \<Rightarrow> endianness_macros" where
  "define_other_endianness host =
     (if cpp_value host = CORK_BIG_ENDIAN then
        \<lparr>CORK_HOST_ENDIANNESS = host,
         CORK_OTHER_ENDIANNESS = Some CORK_LITTLE_ENDIAN,
         CORK_HOST_ENDIANNESS_NAME = Some ''big'',
         CORK_OTHER_ENDIANNESS_NAME = Some ''little''\<rparr>
      else if cpp_value host = CORK_LITTLE_ENDIAN then
        \<lparr>CORK_HOST_ENDIANNESS = host,
         CORK_OTHER_ENDIANNESS = Some CORK_BIG_ENDIAN,
         CORK_HOST_ENDIANNESS_NAME = Some ''little'',
         CORK_OTHER_ENDIANNESS_NAME = Some ''big''\<rparr>
      else
        \<lparr>CORK_HOST_ENDIANNESS = host,
         CORK_OTHER_ENDIANNESS = None,
         CORK_HOST_ENDIANNESS_NAME = None,
         CORK_OTHER_ENDIANNESS_NAME = None\<rparr>)"

text \<open>Preprocessing the endianness part of the header on a platform.\<close>

definition byte_order_h :: "platform \<Rightarrow> error + endianness_macros" where
  "byte_order_h p =
     (case detect_CORK_HOST_ENDIANNESS p of
        Inl e \<Rightarrow> Inl e
      | Inr host \<Rightarrow> Inr (define_other_endianness host))"

text \<open>
  A platform that is neither Linux nor Mac OS X (FreeBSD or Windows, say): none of
  \<open>__linux\<close>, \<open>__APPLE__\<close>, \<open>__MACH__\<close> is defined and neither system header is read.
\<close>

definition other_platform :: platform where
  "other_platform =
     \<lparr>defined_linux = False, defined_APPLE = False, defined_MACH = False,
      endian_h_BYTE_ORDER = 0, endian_h_BIG_ENDIAN = 0, endian_h_LITTLE_ENDIAN = 0,
      machine_endian_h_BYTE_ORDER = 0, machine_endian_h_BIG_ENDIAN = 0,
      machine_endian_h_LITTLE_ENDIAN = 0\<rparr>"

subsection \<open>Unconditional swap\<close>

text \<open>The casts \<open>(uint16_t)\<close>, \<open>(uint32_t)\<close>, \<open>(uint64_t)\<close>: reduction modulo \<open>2 ^ n\<close>.\<close>

definition uint16_t :: "int \<Rightarrow> 16 word" where
  "uint16_t x = word_of_int x"

definition uint32_t :: "int \<Rightarrow> 32 word" where
  "uint32_t x = word_of_int x"

definition uint64_t :: "int \<Rightarrow> 64 word" where
  "uint64_t x = word_of_int x"

text \<open>
  The expansions for an argument that is a primary expression of value \<open>u16\<close>,
  \<open>u32\<close>, \<open>u64\<close>. In \<open>CORK_SWAP_UINT16\<close> the operand \<open>(uint16_t) __u16\<close> meets the
  \<open>unsigned int\<close> constants \<open>0xff00u\<close> and \<open>0x00ffu\<close>, so it is converted to
  \<open>unsigned int\<close> (\<open>ucast\<close>) and the whole expression is computed in 32 bits.
\<close>

definition CORK_SWAP_UINT16 :: "int \<Rightarrow> int" where
  "CORK_SWAP_UINT16 u16 = uint
     (drop_bit 8 ((ucast (uint16_t u16) :: 32 word) AND 0xff00) OR
      push_bit 8 ((ucast (uint16_t u16) :: 32 word) AND 0x00ff))"

definition CORK_SWAP_UINT32 :: "int \<Rightarrow> int" where
  "CORK_SWAP_UINT32 u32 = uint
     (drop_bit 24 (uint32_t u32 AND 0xff000000) OR
      drop_bit 8 (uint32_t u32 AND 0x00ff0000) OR
      push_bit 8 (uint32_t u32 AND 0x0000ff00) OR
      push_bit 24 (uint32_t u32 AND 0x000000ff))"

definition CORK_SWAP_UINT64 :: "int \<Rightarrow> int" where
  "CORK_SWAP_UINT64 u64 = uint
     (drop_bit 56 (uint64_t u64 AND 0xff00000000000000) OR
      drop_bit 40 (uint64_t u64 AND 0x00ff000000000000) OR
      drop_bit 24 (uint64_t u64 AND 0x0000ff0000000000) OR
      drop_bit 8 (uint64_t u64 AND 0x000000ff00000000) OR
      push_bit 8 (uint64_t u64 AND 0x00000000ff000000) OR
      push_bit 24 (uint64_t u64 AND 0x0000000000ff0000) OR
      push_bit 40 (uint64_t u64 AND 0x000000000000ff00) OR
      push_bit 56 (uint64_t u64 AND 0x00000000000000ff))"

subsection \<open>The swap macros on an argument with an operator\<close>

text \<open>
  The shapes of argument considered: a primary expression of value \<open>v\<close>; \<open>a >> k\<close>
  with \<open>a\<close> a primary expression of a non-negative value (of any integer type) and
  \<open>k\<close> a constant shift count below 32; \<open>a / b\<close> with \<open>a\<close> and \<open>b\<close> primary
  expressions of type \<open>int\<close> and \<open>b\<close> not 0.
\<close>

datatype macro_arg = Primary int | Shift_right int nat | Divide int int

text \<open>C's integer division truncates towards zero.\<close>

definition C_div :: "int \<Rightarrow> int \<Rightarrow> int" where
  "C_div a b = sgn a * sgn b * (\<bar>a\<bar> div \<bar>b\<bar>)"

text \<open>The value of the argument as the caller wrote it.\<close>

fun arg_value :: "macro_arg \<Rightarrow> int" where
  "arg_value (Primary v) = v"
| "arg_value (Shift_right a k) = a div 2 ^ k"
| "arg_value (Divide a b) = C_div a b"

text \<open>
  The operand \<open>(uint16_t) __u16\<close> after substitution, converted to \<open>unsigned int\<close> as
  the \<open>&\<close> with an unsigned constant requires. A cast binds tighter than \<open>>>\<close> and
  \<open>/\<close>: in \<open>(uint16_t) a >> k\<close> and \<open>(uint16_t) a / b\<close> the left operand is cast, the
  cast value is promoted to \<open>int\<close>, and the operator is applied in \<open>int\<close>.
\<close>

fun cast_uint16_t :: "macro_arg \<Rightarrow> 32 word" where
  "cast_uint16_t (Primary v) = ucast (uint16_t v)"
| "cast_uint16_t (Shift_right a k) = drop_bit k (ucast (uint16_t a))"
| "cast_uint16_t (Divide a b) = word_of_int (C_div (uint (uint16_t a)) b)"

text \<open>
  The operand \<open>(uint32_t) __u32\<close> after substitution: in \<open>(uint32_t) a / b\<close> the
  \<open>int\<close> operand \<open>b\<close> is converted to \<open>unsigned int\<close> and the division is unsigned.
\<close>

fun cast_uint32_t :: "macro_arg \<Rightarrow> 32 word" where
  "cast_uint32_t (Primary v) = uint32_t v"
| "cast_uint32_t (Shift_right a k) = drop_bit k (uint32_t a)"
| "cast_uint32_t (Divide a b) = uint32_t a div word_of_int b"

text \<open>The operand \<open>(uint64_t) __u64\<close> after substitution, likewise in 64 bits.\<close>

fun cast_uint64_t :: "macro_arg \<Rightarrow> 64 word" where
  "cast_uint64_t (Primary v) = uint64_t v"
| "cast_uint64_t (Shift_right a k) = drop_bit k (uint64_t a)"
| "cast_uint64_t (Divide a b) = uint64_t a div word_of_int b"

definition CORK_SWAP_UINT16_of_arg :: "macro_arg \<Rightarrow> int" where
  "CORK_SWAP_UINT16_of_arg u16 = uint
     (drop_bit 8 (cast_uint16_t u16 AND 0xff00) OR
      push_bit 8 (cast_uint16_t u16 AND 0x00ff))"

definition CORK_SWAP_UINT32_of_arg :: "macro_arg \<Rightarrow> int" where
  "CORK_SWAP_UINT32_of_arg u32 = uint
     (drop_bit 24 (cast_uint32_t u32 AND 0xff000000) OR
      drop_bit 8 (cast_uint32_t u32 AND 0x00ff0000) OR
      push_bit 8 (cast_uint32_t u32 AND 0x0000ff00) OR
      push_bit 24 (cast_uint32_t u32 AND 0x000000ff))"

definition CORK_SWAP_UINT64_of_arg :: "macro_arg \<Rightarrow> int" where
  "CORK_SWAP_UINT64_of_arg u64 = uint
     (drop_bit 56 (cast_uint64_t u64 AND 0xff00000000000000) OR
      drop_bit 40 (cast_uint64_t u64 AND 0x00ff000000000000) OR
      drop_bit 24 (cast_uint64_t u64 AND 0x0000ff0000000000) OR
      drop_bit 8 (cast_uint64_t u64 AND 0x000000ff00000000) OR
      push_bit 8 (cast_uint64_t u64 AND 0x00000000ff000000) OR
      push_bit 24 (cast_uint64_t u64 AND 0x0000000000ff0000) OR
      push_bit 40 (cast_uint64_t u64 AND 0x000000000000ff00) OR
      push_bit 56 (cast_uint64_t u64 AND 0x00000000000000ff))"

subsection \<open>In-place swap\<close>

text \<open>
  The in-place variants are statements on a variable. A store maps variables to the
  words they hold; \<open>(__u16) = CORK_SWAP_UINT16(__u16)\<close> reads the variable, and the
  assignment converts the value of the right-hand side to the variable's type.
\<close>

definition CORK_SWAP_IN_PLACE_UINT16 :: "'x \<Rightarrow> ('x \<Rightarrow> 16 word) \<Rightarrow> ('x \<Rightarrow> 16 word)" where
  "CORK_SWAP_IN_PLACE_UINT16 x s = s(x := uint16_t (CORK_SWAP_UINT16 (uint (s x))))"

definition CORK_SWAP_IN_PLACE_UINT32 :: "'x \<Rightarrow> ('x \<Rightarrow> 32 word) \<Rightarrow> ('x \<Rightarrow> 32 word)" where
  "CORK_SWAP_IN_PLACE_UINT32 x s = s(x := uint32_t (CORK_SWAP_UINT32 (uint (s x))))"

definition CORK_SWAP_IN_PLACE_UINT64 :: "'x \<Rightarrow> ('x \<Rightarrow> 64 word) \<Rightarrow> ('x \<Rightarrow> 64 word)" where
  "CORK_SWAP_IN_PLACE_UINT64 x s = s(x := uint64_t (CORK_SWAP_UINT64 (uint (s x))))"

subsection \<open>Directional conversion\<close>

text \<open>
  The third conditional group selects, per host endianness, which of the conversion
  macros is the identity \<open>(__u16)\<close> and which is the swap. It has no \<open>#else\<close>: where
  \<open>CORK_HOST_ENDIANNESS\<close> is neither constant the macros stay undefined (\<open>None\<close>). The
  parameter \<open>host\<close> is the value \<open>CORK_HOST_ENDIANNESS\<close> has in the \<open>#if\<close>. An identity
  macro hands its argument through without a cast.
\<close>

definition CORK_UINT16_BIG_TO_HOST :: "int \<Rightarrow> int \<Rightarrow> int option" where
  "CORK_UINT16_BIG_TO_HOST host u16 =
     (if host = CORK_BIG_ENDIAN then Some u16
      else if host = CORK_LITTLE_ENDIAN then Some (CORK_SWAP_UINT16 u16)
      else None)"

definition CORK_UINT16_LITTLE_TO_HOST :: "int \<Rightarrow> int \<Rightarrow> int option" where
  "CORK_UINT16_LITTLE_TO_HOST host u16 =
     (if host = CORK_BIG_ENDIAN then Some (CORK_SWAP_UINT16 u16)
      else if host = CORK_LITTLE_ENDIAN then Some u16
      else None)"

definition CORK_UINT32_BIG_TO_HOST :: "int \<Rightarrow> int \<Rightarrow> int option" where
  "CORK_UINT32_BIG_TO_HOST host u32 =
     (if host = CORK_BIG_ENDIAN then Some u32
      else if host = CORK_LITTLE_ENDIAN then Some (CORK_SWAP_UINT32 u32)
      else None)"

definition CORK_UINT32_LITTLE_TO_HOST :: "int \<Rightarrow> int \<Rightarrow> int option" where
  "CORK_UINT32_LITTLE_TO_HOST host u32 =
     (if host = CORK_BIG_ENDIAN then Some (CORK_SWAP_UINT32 u32)
      else if host = CORK_LITTLE_ENDIAN then Some u32
      else None)"

definition CORK_UINT64_BIG_TO_HOST :: "int \<Rightarrow> int \<Rightarrow> int option" where
  "CORK_UINT64_BIG_TO_HOST host u64 =
     (if host = CORK_BIG_ENDIAN then Some u64
      else if host = CORK_LITTLE_ENDIAN then Some (CORK_SWAP_UINT64 u64)
      else None)"

definition CORK_UINT64_LITTLE_TO_HOST :: "int \<Rightarrow> int \<Rightarrow> int option" where
  "CORK_UINT64_LITTLE_TO_HOST host u64 =
     (if host = CORK_BIG_ENDIAN then Some (CORK_SWAP_UINT64 u64)
      else if host = CORK_LITTLE_ENDIAN then Some u64
      else None)"

text \<open>
  The in-place conversions: the swap statement, or an empty expansion that leaves the
  store as it is.
\<close>

definition CORK_UINT16_BIG_TO_HOST_IN_PLACE ::
  "int \<Rightarrow> 'x \<Rightarrow> ('x \<Rightarrow> 16 word) \<Rightarrow> ('x \<Rightarrow> 16 word) option" where
  "CORK_UINT16_BIG_TO_HOST_IN_PLACE host x s =
     (if host = CORK_BIG_ENDIAN then Some s
      else if host = CORK_LITTLE_ENDIAN then Some (CORK_SWAP_IN_PLACE_UINT16 x s)
      else None)"

definition CORK_UINT16_LITTLE_TO_HOST_IN_PLACE ::
  "int \<Rightarrow> 'x \<Rightarrow> ('x \<Rightarrow> 16 word) \<Rightarrow> ('x \<Rightarrow> 16 word) option" where
  "CORK_UINT16_LITTLE_TO_HOST_IN_PLACE host x s =
     (if host = CORK_BIG_ENDIAN then Some (CORK_SWAP_IN_PLACE_UINT16 x s)
      else if host = CORK_LITTLE_ENDIAN then Some s
      else None)"

definition CORK_UINT32_BIG_TO_HOST_IN_PLACE ::
  "int \<Rightarrow> 'x \<Rightarrow> ('x \<Rightarrow> 32 word) \<Rightarrow> ('x \<Rightarrow> 32 word) option" where
  "CORK_UINT32_BIG_TO_HOST_IN_PLACE host x s =
     (if host = CORK_BIG_ENDIAN then Some s
      else if host = CORK_LITTLE_ENDIAN then Some (CORK_SWAP_IN_PLACE_UINT32 x s)
      else None)"

definition CORK_UINT32_LITTLE_TO_HOST_IN_PLACE ::
  "int \<Rightarrow> 'x \<Rightarrow> ('x \<Rightarrow> 32 word) \<Rightarrow> ('x \<Rightarrow> 32 word) option" where
  "CORK_UINT32_LITTLE_TO_HOST_IN_PLACE host x s =
     (if host = CORK_BIG_ENDIAN then Some (CORK_SWAP_IN_PLACE_UINT32 x s)
      else if host = CORK_LITTLE_ENDIAN then Some s
      else None)"

definition CORK_UINT64_BIG_TO_HOST_IN_PLACE ::
  "int \<Rightarrow> 'x \<Rightarrow> ('x \<Rightarrow> 64 word) \<Rightarrow> ('x \<Rightarrow> 64 word) option" where
  "CORK_UINT64_BIG_TO_HOST_IN_PLACE host x s =
     (if host = CORK_BIG_ENDIAN then Some s
      else if host = CORK_LITTLE_ENDIAN then Some (CORK_SWAP_IN_PLACE_UINT64 x s)
      else None)"

definition CORK_UINT64_LITTLE_TO_HOST_IN_PLACE ::
  "int \<Rightarrow> 'x \<Rightarrow> ('x \<Rightarrow> 64 word) \<Rightarrow> ('x \<Rightarrow> 64 word) option" where
  "CORK_UINT64_LITTLE_TO_HOST_IN_PLACE host x s =
     (if host = CORK_BIG_ENDIAN then Some (CORK_SWAP_IN_PLACE_UINT64 x s)
      else if host = CORK_LITTLE_ENDIAN then Some s
      else None)"

text \<open>The host-to-X macros are object-like aliases of the X-to-host macros.\<close>

definition CORK_UINT16_HOST_TO_BIG :: "int \<Rightarrow> int \<Rightarrow> int option" where
  "CORK_UINT16_HOST_TO_BIG = CORK_UINT16_BIG_TO_HOST"

definition CORK_UINT32_HOST_TO_BIG :: "int \<Rightarrow> int \<Rightarrow> int option" where
  "CORK_UINT32_HOST_TO_BIG = CORK_UINT32_BIG_TO_HOST"

definition CORK_UINT64_HOST_TO_BIG :: "int \<Rightarrow> int \<Rightarrow> int option" where
  "CORK_UINT64_HOST_TO_BIG = CORK_UINT64_BIG_TO_HOST"

definition CORK_UINT16_HOST_TO_LITTLE :: "int \<Rightarrow> int \<Rightarrow> int option" where
  "CORK_UINT16_HOST_TO_LITTLE = CORK_UINT16_LITTLE_TO_HOST"

definition CORK_UINT32_HOST_TO_LITTLE :: "int \<Rightarrow> int \<Rightarrow> int option" where
  "CORK_UINT32_HOST_TO_LITTLE = CORK_UINT32_LITTLE_TO_HOST"

definition CORK_UINT64_HOST_TO_LITTLE :: "int \<Rightarrow> int \<Rightarrow> int option" where
  "CORK_UINT64_HOST_TO_LITTLE = CORK_UINT64_LITTLE_TO_HOST"

definition CORK_UINT16_HOST_TO_BIG_IN_PLACE ::
  "int \<Rightarrow> 'x \<Rightarrow> ('x \<Rightarrow> 16 word) \<Rightarrow> ('x \<Rightarrow> 16 word) option" where
  "CORK_UINT16_HOST_TO_BIG_IN_PLACE = CORK_UINT16_BIG_TO_HOST_IN_PLACE"

definition CORK_UINT32_HOST_TO_BIG_IN_PLACE ::
  "int \<Rightarrow> 'x \<Rightarrow> ('x \<Rightarrow> 32 word) \<Rightarrow> ('x \<Rightarrow> 32 word) option" where
  "CORK_UINT32_HOST_TO_BIG_IN_PLACE = CORK_UINT32_BIG_TO_HOST_IN_PLACE"

definition CORK_UINT64_HOST_TO_BIG_IN_PLACE ::
  "int \<Rightarrow> 'x \<Rightarrow> ('x \<Rightarrow> 64 word) \<Rightarrow> ('x \<Rightarrow> 64 word) option" where
  "CORK_UINT64_HOST_TO_BIG_IN_PLACE = CORK_UINT64_BIG_TO_HOST_IN_PLACE"

definition CORK_UINT16_HOST_TO_LITTLE_IN_PLACE ::
  "int \<Rightarrow> 'x \<Rightarrow> ('x \<Rightarrow> 16 word) \<Rightarrow> ('x \<Rightarrow> 16 word) option" where
  "CORK_UINT16_HOST_TO_LITTLE_IN_PLACE = CORK_UINT16_LITTLE_TO_HOST_IN_PLACE"

definition CORK_UINT32_HOST_TO_LITTLE_IN_PLACE ::
  "int \<Rightarrow> 'x \<Rightarrow> ('x \<Rightarrow> 32 word) \<Rightarrow> ('x \<Rightarrow> 32 word) option" where
  "CORK_UINT32_HOST_TO_LITTLE_IN_PLACE = CORK_UINT32_LITTLE_TO_HOST_IN_PLACE"

definition CORK_UINT64_HOST_TO_LITTLE_IN_PLACE ::
  "int \<Rightarrow> 'x \<Rightarrow> ('x \<Rightarrow> 64 word) \<Rightarrow> ('x \<Rightarrow> 64 word) option" where
  "CORK_UINT64_HOST_TO_LITTLE_IN_PLACE = CORK_UINT64_LITTLE_TO_HOST_IN_PLACE"

subsection \<open>Evaluating a value-returning macro on a variable\<close>

text \<open>
  When the argument of a value-returning macro is a variable, every occurrence of the
  parameter in the expansion is a read of that variable. Evaluation is written with the
  store threaded through the reads, operand by operand from left to right, and returns
  the value together with the store it ends in.
\<close>

definition rvalue :: "'x \<Rightarrow> ('x \<Rightarrow> 'a::len word) \<Rightarrow> int \<times> ('x \<Rightarrow> 'a word)" where
  "rvalue x s = (uint (s x), s)"

definition eval_CORK_SWAP_UINT16 ::
  "'x \<Rightarrow> ('x \<Rightarrow> 16 word) \<Rightarrow> int \<times> ('x \<Rightarrow> 16 word)" where
  "eval_CORK_SWAP_UINT16 x s =
     (let (a, s1) = rvalue x s; (b, s2) = rvalue x s1
      in (uint (drop_bit 8 ((ucast (uint16_t a) :: 32 word) AND 0xff00) OR
                push_bit 8 ((ucast (uint16_t b) :: 32 word) AND 0x00ff)), s2))"

definition eval_CORK_SWAP_UINT32 ::
  "'x \<Rightarrow> ('x \<Rightarrow> 32 word) \<Rightarrow> int \<times> ('x \<Rightarrow> 32 word)" where
  "eval_CORK_SWAP_UINT32 x s =
     (let (a, s1) = rvalue x s; (b, s2) = rvalue x s1;
          (c, s3) = rvalue x s2; (d, s4) = rvalue x s3
      in (uint (drop_bit 24 (uint32_t a AND 0xff000000) OR
                drop_bit 8 (uint32_t b AND 0x00ff0000) OR
                push_bit 8 (uint32_t c AND 0x0000ff00) OR
                push_bit 24 (uint32_t d AND 0x000000ff)), s4))"

definition eval_CORK_SWAP_UINT64 ::
  "'x \<Rightarrow> ('x \<Rightarrow> 64 word) \<Rightarrow> int \<times> ('x \<Rightarrow> 64 word)" where
  "eval_CORK_SWAP_UINT64 x s =
     (let (a, s1) = rvalue x s; (b, s2) = rvalue x s1;
          (c, s3) = rvalue x s2; (d, s4) = rvalue x s3;
          (e, s5) = rvalue x s4; (f, s6) = rvalue x s5;
          (g, s7) = rvalue x s6; (h, s8) = rvalue x s7
      in (uint (drop_bit 56 (uint64_t a AND 0xff00000000000000) OR
                drop_bit 40 (uint64_t b AND 0x00ff000000000000) OR
                drop_bit 24 (uint64_t c AND 0x0000ff0000000000) OR
                drop_bit 8 (uint64_t d AND 0x000000ff00000000) OR
                push_bit 8 (uint64_t e AND 0x00000000ff000000) OR
                push_bit 24 (uint64_t f AND 0x0000000000ff0000) OR
                push_bit 40 (uint64_t g AND 0x000000000000ff00) OR
                push_bit 56 (uint64_t h AND 0x00000000000000ff)), s8))"

definition eval_CORK_UINT16_BIG_TO_HOST ::
  "int \<Rightarrow> 'x \<Rightarrow> ('x \<Rightarrow> 16 word) \<Rightarrow> (int \<times> ('x \<Rightarrow> 16 word)) option" where
  "eval_CORK_UINT16_BIG_TO_HOST host x s =
     (if host = CORK_BIG_ENDIAN then Some (rvalue x s)
      else if host = CORK_LITTLE_ENDIAN then Some (eval_CORK_SWAP_UINT16 x s)
      else None)"

definition eval_CORK_UINT16_LITTLE_TO_HOST ::
  "int \<Rightarrow> 'x \<Rightarrow> ('x \<Rightarrow> 16 word) \<Rightarrow> (int \<times> ('x \<Rightarrow> 16 word)) option" where
  "eval_CORK_UINT16_LITTLE_TO_HOST host x s =
     (if host = CORK_BIG_ENDIAN then Some (eval_CORK_SWAP_UINT16 x s)
      else if host = CORK_LITTLE_ENDIAN then Some (rvalue x s)
      else None)"

definition eval_CORK_UINT32_BIG_TO_HOST ::
  "int \<Rightarrow> 'x \<Rightarrow> ('x \<Rightarrow> 32 word) \<Rightarrow> (int \<times> ('x \<Rightarrow> 32 word)) option" where
  "eval_CORK_UINT32_BIG_TO_HOST host x s =
     (if host = CORK_BIG_ENDIAN then Some (rvalue x s)
      else if host = CORK_LITTLE_ENDIAN then Some (eval_CORK_SWAP_UINT32 x s)
      else None)"

definition eval_CORK_UINT32_LITTLE_TO_HOST ::
  "int \<Rightarrow> 'x \<Rightarrow> ('x \<Rightarrow> 32 word) \<Rightarrow> (int \<times> ('x \<Rightarrow> 32 word)) option" where
  "eval_CORK_UINT32_LITTLE_TO_HOST host x s =
     (if host = CORK_BIG_ENDIAN then Some (eval_CORK_SWAP_UINT32 x s)
      else if host = CORK_LITTLE_ENDIAN then Some (rvalue x s)
      else None)"

definition eval_CORK_UINT64_BIG_TO_HOST ::
  "int \<Rightarrow> 'x \<Rightarrow> ('x \<Rightarrow> 64 word) \<Rightarrow> (int \<times> ('x \<Rightarrow> 64 word)) option" where
  "eval_CORK_UINT64_BIG_TO_HOST host x s =
     (if host = CORK_BIG_ENDIAN then Some (rvalue x s)
      else if host = CORK_LITTLE_ENDIAN then Some (eval_CORK_SWAP_UINT64 x s)
      else None)"

definition eval_CORK_UINT64_LITTLE_TO_HOST ::
  "int \<Rightarrow> 'x \<Rightarrow> ('x \<Rightarrow> 64 word) \<Rightarrow> (int \<times> ('x \<Rightarrow> 64 word)) option" where
  "eval_CORK_UINT64_LITTLE_TO_HOST host x s =
     (if host = CORK_BIG_ENDIAN then Some (eval_CORK_SWAP_UINT64 x s)
      else if host = CORK_LITTLE_ENDIAN then Some (rvalue x s)
      else None)"

definition eval_CORK_UINT16_HOST_TO_BIG ::
  "int \<Rightarrow> 'x \<Rightarrow> ('x \<Rightarrow> 16 word) \<Rightarrow> (int \<times> ('x \<Rightarrow> 16 word)) option" where
  "eval_CORK_UINT16_HOST_TO_BIG = eval_CORK_UINT16_BIG_TO_HOST"

definition eval_CORK_UINT32_HOST_TO_BIG ::
  "int \<Rightarrow> 'x \<Rightarrow> ('x \<Rightarrow> 32 word) \<Rightarrow> (int \<times> ('x \<Rightarrow> 32 word)) option" where
  "eval_CORK_UINT32_HOST_TO_BIG = eval_CORK_UINT32_BIG_TO_HOST"

definition eval_CORK_UINT64_HOST_TO_BIG ::
  "int \<Rightarrow> 'x \<Rightarrow> ('x \<Rightarrow> 64 word) \<Rightarrow> (int \<times> ('x \<Rightarrow> 64 word)) option" where
  "eval_CORK_UINT64_HOST_TO_BIG = eval_CORK_UINT64_BIG_TO_HOST"

definition eval_CORK_UINT16_HOST_TO_LITTLE ::
  "int \<Rightarrow> 'x \<Rightarrow> ('x \<Rightarrow> 16 word) \<Rightarrow> (int \<times> ('x \<Rightarrow> 16 word)) option" where
  "eval_CORK_UINT16_HOST_TO_LITTLE = eval_CORK_UINT16_LITTLE_TO_HOST"

definition eval_CORK_UINT32_HOST_TO_LITTLE ::
  "int \<Rightarrow> 'x \<Rightarrow> ('x \<Rightarrow> 32 word) \<Rightarrow> (int \<times> ('x \<Rightarrow> 32 word)) option" where
  "eval_CORK_UINT32_HOST_TO_LITTLE = eval_CORK_UINT32_LITTLE_TO_HOST"

definition eval_CORK_UINT64_HOST_TO_LITTLE ::
  "int \<Rightarrow> 'x \<Rightarrow> ('x \<Rightarrow> 64 word) \<Rightarrow> (int \<times> ('x \<Rightarrow> 64 word)) option" where
  "eval_CORK_UINT64_HOST_TO_LITTLE = eval_CORK_UINT64_LITTLE_TO_HOST"

subsection \<open>Bytes of a value\<close>

text \<open>
  Byte \<open>i\<close> of an integer value, counted from the least significant byte. This is the
  notion the specification uses to say what a swap returns; it is not taken from the
  header.
\<close>

definition nth_byte :: "nat \<Rightarrow> int \<Rightarrow> int" where
  "nth_byte i x = (x div 256 ^ i) mod 256"

text \<open>
  The byte reversal of the \<open>n\<close> low bytes of a value, as the specification words it:
  byte \<open>i\<close> of the result is byte \<open>n - 1 - i\<close> of the input. It is the reference the
  macros are compared with.
\<close>

definition byte_reverse :: "nat \<Rightarrow> int \<Rightarrow> int" where
  "byte_reverse n x = (\<Sum>i<n. nth_byte (n - 1 - i) x * 256 ^ i)"

section \<open>Properties\<close>

subsection \<open>The swap, bit by bit\<close>

text \<open>
  Each mask of the expansions selects one byte lane; each shifted and masked operand
  contributes the bits of one lane of the argument, moved to the mirrored lane.
\<close>

lemma lane_masks_32:
  "(0xff :: 32 word) = mask 8"
  "(0xff00 :: 32 word) = push_bit 8 (mask 8)"
  "(0xff0000 :: 32 word) = push_bit 16 (mask 8)"
  "(0xff000000 :: 32 word) = push_bit 24 (mask 8)"
  by (simp_all add: mask_eq_exp_minus_1)

lemma lane_masks_64:
  "(0xff :: 64 word) = mask 8"
  "(0xff00 :: 64 word) = push_bit 8 (mask 8)"
  "(0xff0000 :: 64 word) = push_bit 16 (mask 8)"
  "(0xff000000 :: 64 word) = push_bit 24 (mask 8)"
  "(0xff00000000 :: 64 word) = push_bit 32 (mask 8)"
  "(0xff0000000000 :: 64 word) = push_bit 40 (mask 8)"
  "(0xff000000000000 :: 64 word) = push_bit 48 (mask 8)"
  "(0xff00000000000000 :: 64 word) = push_bit 56 (mask 8)"
  by (simp_all add: mask_eq_exp_minus_1)

lemma bit_lane_down:
  "bit (drop_bit s ((w :: 'a::len word) AND push_bit p (mask 8))) n \<longleftrightarrow>
     p \<le> n + s \<and> n + s < p + 8 \<and> bit w (n + s)"
  by (auto simp add: bit_simps ac_simps dest: bit_imp_le_length)

lemma bit_lane_up:
  "bit (push_bit s ((w :: 'a::len word) AND push_bit p (mask 8))) n \<longleftrightarrow>
     s + p \<le> n \<and> n < s + p + 8 \<and> n < LENGTH('a) \<and> bit w (n - s)"
  by (auto simp add: bit_simps ac_simps dest: bit_imp_le_length)

lemma bit_lane_up0:
  "bit (push_bit s ((w :: 'a::len word) AND mask 8)) n \<longleftrightarrow>
     s \<le> n \<and> n < s + 8 \<and> n < LENGTH('a) \<and> bit w (n - s)"
  by (auto simp add: bit_simps ac_simps dest: bit_imp_le_length)

lemmas bit_lanes =
  bit_uint_iff bit_or_iff bit_lane_down bit_lane_up bit_lane_up0 bit_ucast_iff
  bit_word_of_int_iff

lemma bit_CORK_SWAP_UINT16:
  "bit (CORK_SWAP_UINT16 x) n \<longleftrightarrow> n < 16 \<and> bit x (if n < 8 then n + 8 else n - 8)"
  unfolding CORK_SWAP_UINT16_def uint16_t_def lane_masks_32
  apply (simp only: bit_lanes)
  apply auto
  done

lemma bit_CORK_SWAP_UINT32:
  "bit (CORK_SWAP_UINT32 x) n \<longleftrightarrow>
     n < 32 \<and> bit x (if n < 8 then n + 24 else if n < 16 then n + 8
                      else if n < 24 then n - 8 else n - 24)"
  unfolding CORK_SWAP_UINT32_def uint32_t_def lane_masks_32
  apply (simp only: bit_lanes)
  apply auto
  done

lemma bit_CORK_SWAP_UINT64:
  "bit (CORK_SWAP_UINT64 x) n \<longleftrightarrow>
     n < 64 \<and> bit x (if n < 8 then n + 56 else if n < 16 then n + 40
                      else if n < 24 then n + 24 else if n < 32 then n + 8
                      else if n < 40 then n - 8 else if n < 48 then n - 24
                      else if n < 56 then n - 40 else n - 56)"
  unfolding CORK_SWAP_UINT64_def uint64_t_def lane_masks_64
  apply (simp only: bit_lanes)
  apply auto
  done

lemma nth_byte_bits: "nth_byte i x = take_bit 8 (drop_bit (8 * i) x)"
  by (simp add: nth_byte_def take_bit_eq_mod drop_bit_eq_div power_mult)

lemma bit_nth_byte: "bit (nth_byte i x) n \<longleftrightarrow> n < 8 \<and> bit x (8 * i + n)"
  by (simp add: nth_byte_bits bit_simps)




lemma take_bit_CORK_SWAP_UINT16: "take_bit 16 (CORK_SWAP_UINT16 x) = CORK_SWAP_UINT16 x"
  by (rule bit_eqI) (auto simp add: bit_CORK_SWAP_UINT16 bit_simps)

lemma take_bit_CORK_SWAP_UINT32: "take_bit 32 (CORK_SWAP_UINT32 x) = CORK_SWAP_UINT32 x"
  by (rule bit_eqI) (auto simp add: bit_CORK_SWAP_UINT32 bit_simps)

lemma take_bit_CORK_SWAP_UINT64: "take_bit 64 (CORK_SWAP_UINT64 x) = CORK_SWAP_UINT64 x"
  by (rule bit_eqI) (auto simp add: bit_CORK_SWAP_UINT64 bit_simps)

lemma CORK_SWAP_UINT16_range: "0 \<le> CORK_SWAP_UINT16 x \<and> CORK_SWAP_UINT16 x < 2 ^ 16"
proof -
  have "0 \<le> take_bit 16 (CORK_SWAP_UINT16 x) \<and> take_bit 16 (CORK_SWAP_UINT16 x) < 2 ^ 16"
    by (simp only: take_bit_nonnegative take_bit_int_less_exp simp_thms)
  then show ?thesis by (simp only: take_bit_CORK_SWAP_UINT16)
qed

lemma CORK_SWAP_UINT32_range: "0 \<le> CORK_SWAP_UINT32 x \<and> CORK_SWAP_UINT32 x < 2 ^ 32"
proof -
  have "0 \<le> take_bit 32 (CORK_SWAP_UINT32 x) \<and> take_bit 32 (CORK_SWAP_UINT32 x) < 2 ^ 32"
    by (simp only: take_bit_nonnegative take_bit_int_less_exp simp_thms)
  then show ?thesis by (simp only: take_bit_CORK_SWAP_UINT32)
qed

lemma CORK_SWAP_UINT64_range: "0 \<le> CORK_SWAP_UINT64 x \<and> CORK_SWAP_UINT64 x < 2 ^ 64"
proof -
  have "0 \<le> take_bit 64 (CORK_SWAP_UINT64 x) \<and> take_bit 64 (CORK_SWAP_UINT64 x) < 2 ^ 64"
    by (simp only: take_bit_nonnegative take_bit_int_less_exp simp_thms)
  then show ?thesis by (simp only: take_bit_CORK_SWAP_UINT64)
qed

lemma uint16_t_mod: "uint16_t (x mod 2 ^ 16) = uint16_t x"
  by (simp add: uint16_t_def word_of_int_eq_iff take_bit_eq_mod)

lemma CORK_SWAP_UINT16_mod: "CORK_SWAP_UINT16 (x mod 2 ^ 16) = CORK_SWAP_UINT16 x"
  by (simp only: CORK_SWAP_UINT16_def uint16_t_mod)

lemma uint32_t_mod: "uint32_t (x mod 2 ^ 32) = uint32_t x"
  by (simp add: uint32_t_def word_of_int_eq_iff take_bit_eq_mod)

lemma CORK_SWAP_UINT32_mod: "CORK_SWAP_UINT32 (x mod 2 ^ 32) = CORK_SWAP_UINT32 x"
  by (simp only: CORK_SWAP_UINT32_def uint32_t_mod)

lemma uint64_t_mod: "uint64_t (x mod 2 ^ 64) = uint64_t x"
  by (simp add: uint64_t_def word_of_int_eq_iff take_bit_eq_mod)

lemma CORK_SWAP_UINT64_mod: "CORK_SWAP_UINT64 (x mod 2 ^ 64) = CORK_SWAP_UINT64 x"
  by (simp only: CORK_SWAP_UINT64_def uint64_t_mod)

lemma nth_byte_CORK_SWAP_UINT16:
  assumes "i < 2"
  shows "nth_byte i (CORK_SWAP_UINT16 x) = nth_byte (1 - i) x"
proof -
  from assms consider (low) "i = 0" | (high) "i = 1"
    by linarith
  then show ?thesis
    by cases (rule bit_eqI, auto simp add: bit_CORK_SWAP_UINT16 bit_nth_byte ac_simps)+
qed

lemma nth_byte_CORK_SWAP_UINT32:
  assumes "i < 4"
  shows "nth_byte i (CORK_SWAP_UINT32 x) = nth_byte (3 - i) x"
proof -
  from assms consider (b0) "i = 0" | (b1) "i = 1" | (b2) "i = 2" | (b3) "i = 3"
    by linarith
  then show ?thesis
    by cases (rule bit_eqI, auto simp add: bit_CORK_SWAP_UINT32 bit_nth_byte ac_simps)+
qed

lemma nth_byte_CORK_SWAP_UINT64:
  assumes "i < 8"
  shows "nth_byte i (CORK_SWAP_UINT64 x) = nth_byte (7 - i) x"
proof -
  from assms consider (b0) "i = 0" | (b1) "i = 1" | (b2) "i = 2" | (b3) "i = 3"
    | (b4) "i = 4" | (b5) "i = 5" | (b6) "i = 6" | (b7) "i = 7"
    by linarith
  then show ?thesis
    by cases (rule bit_eqI, auto simp add: bit_CORK_SWAP_UINT64 bit_nth_byte ac_simps)+
qed

subsection \<open>The swap as a byte reversal\<close>

lemma take_bit_bytes: "take_bit (8 * n) x = (\<Sum>i<n. nth_byte i x * 256 ^ i)"
proof (induction n)
  case 0
  show ?case by simp
next
  case (Suc n)
  have "8 * Suc n = 8 * n + 8"
    by simp
  then have "take_bit (8 * Suc n) x =
      push_bit (8 * n) (drop_bit (8 * n) (take_bit (8 * n + 8) x)) +
      take_bit (8 * n) (take_bit (8 * n + 8) x)"
    by (simp only: bits_ident)
  also have "\<dots> = push_bit (8 * n) (nth_byte n x) + take_bit (8 * n) x"
    by (simp add: nth_byte_bits drop_bit_take_bit)
  finally show ?case
    by (simp add: Suc.IH push_bit_eq_mult power_mult)
qed

lemma CORK_SWAP_UINT16_byte_reverse: "CORK_SWAP_UINT16 x = byte_reverse 2 x"
proof -
  have "CORK_SWAP_UINT16 x = take_bit (8 * 2) (CORK_SWAP_UINT16 x)"
    by (simp add: take_bit_CORK_SWAP_UINT16)
  also have "\<dots> = (\<Sum>i<2. nth_byte i (CORK_SWAP_UINT16 x) * 256 ^ i)"
    by (rule take_bit_bytes)
  also have "\<dots> = (\<Sum>i<2. nth_byte (2 - 1 - i) x * 256 ^ i)"
    by (rule sum.cong) (simp_all add: nth_byte_CORK_SWAP_UINT16)
  finally show ?thesis by (simp only: byte_reverse_def)
qed

lemma CORK_SWAP_UINT32_byte_reverse: "CORK_SWAP_UINT32 x = byte_reverse 4 x"
proof -
  have "CORK_SWAP_UINT32 x = take_bit (8 * 4) (CORK_SWAP_UINT32 x)"
    by (simp add: take_bit_CORK_SWAP_UINT32)
  also have "\<dots> = (\<Sum>i<4. nth_byte i (CORK_SWAP_UINT32 x) * 256 ^ i)"
    by (rule take_bit_bytes)
  also have "\<dots> = (\<Sum>i<4. nth_byte (4 - 1 - i) x * 256 ^ i)"
    by (rule sum.cong) (simp_all add: nth_byte_CORK_SWAP_UINT32)
  finally show ?thesis by (simp only: byte_reverse_def)
qed

lemma CORK_SWAP_UINT64_byte_reverse: "CORK_SWAP_UINT64 x = byte_reverse 8 x"
proof -
  have "CORK_SWAP_UINT64 x = take_bit (8 * 8) (CORK_SWAP_UINT64 x)"
    by (simp add: take_bit_CORK_SWAP_UINT64)
  also have "\<dots> = (\<Sum>i<8. nth_byte i (CORK_SWAP_UINT64 x) * 256 ^ i)"
    by (rule take_bit_bytes)
  also have "\<dots> = (\<Sum>i<8. nth_byte (8 - 1 - i) x * 256 ^ i)"
    by (rule sum.cong) (simp_all add: nth_byte_CORK_SWAP_UINT64)
  finally show ?thesis by (simp only: byte_reverse_def)
qed

subsection \<open>Claims about the unconditional swap\<close>




text \<open>
  For an argument that is a primary expression the macros do truncate: the result is
  the byte reversal of the argument's value mod 2^n, lies between 0 and 2^n, and is the
  result for the value mod 2^n.
\<close>

lemma CORK_SWAP_primary_truncates:
  "CORK_SWAP_UINT16 x = byte_reverse 2 (x mod 2 ^ 16) \<and>
   0 \<le> CORK_SWAP_UINT16 x \<and> CORK_SWAP_UINT16 x < 2 ^ 16 \<and>
   CORK_SWAP_UINT16 x = CORK_SWAP_UINT16 (x mod 2 ^ 16) \<and>
   CORK_SWAP_UINT32 y = byte_reverse 4 (y mod 2 ^ 32) \<and>
   0 \<le> CORK_SWAP_UINT32 y \<and> CORK_SWAP_UINT32 y < 2 ^ 32 \<and>
   CORK_SWAP_UINT32 y = CORK_SWAP_UINT32 (y mod 2 ^ 32) \<and>
   CORK_SWAP_UINT64 z = byte_reverse 8 (z mod 2 ^ 64) \<and>
   0 \<le> CORK_SWAP_UINT64 z \<and> CORK_SWAP_UINT64 z < 2 ^ 64 \<and>
   CORK_SWAP_UINT64 z = CORK_SWAP_UINT64 (z mod 2 ^ 64)"
proof -
  have "CORK_SWAP_UINT16 x = byte_reverse 2 (x mod 2 ^ 16)"
    using CORK_SWAP_UINT16_byte_reverse [of "x mod 2 ^ 16"]
    by (simp only: CORK_SWAP_UINT16_mod)
  moreover have "CORK_SWAP_UINT32 y = byte_reverse 4 (y mod 2 ^ 32)"
    using CORK_SWAP_UINT32_byte_reverse [of "y mod 2 ^ 32"]
    by (simp only: CORK_SWAP_UINT32_mod)
  moreover have "CORK_SWAP_UINT64 z = byte_reverse 8 (z mod 2 ^ 64)"
    using CORK_SWAP_UINT64_byte_reverse [of "z mod 2 ^ 64"]
    by (simp only: CORK_SWAP_UINT64_mod)
  ultimately show ?thesis
    using CORK_SWAP_UINT16_range [of x] CORK_SWAP_UINT32_range [of y]
      CORK_SWAP_UINT64_range [of z]
    by (simp only: CORK_SWAP_UINT16_mod CORK_SWAP_UINT32_mod CORK_SWAP_UINT64_mod
        simp_thms)
qed

lemma CORK_SWAP_of_arg_Primary:
  "CORK_SWAP_UINT16_of_arg (Primary v) = CORK_SWAP_UINT16 v \<and>
   CORK_SWAP_UINT32_of_arg (Primary v) = CORK_SWAP_UINT32 v \<and>
   CORK_SWAP_UINT64_of_arg (Primary v) = CORK_SWAP_UINT64 v"
  by (simp add: CORK_SWAP_UINT16_of_arg_def CORK_SWAP_UINT32_of_arg_def
      CORK_SWAP_UINT64_of_arg_def CORK_SWAP_UINT16_def CORK_SWAP_UINT32_def
      CORK_SWAP_UINT64_def)

text \<open>
  C10. The claim: each swap macro casts its argument to the unsigned type of its width
  first, so for every integer argument x, also one wider than n bits, the result is the
  byte reversal of x mod 2^n. The macros cast the bare parameter, so for an argument with
  an operator only the left operand is cast:
  \<open>CORK_SWAP_UINT16(0x12345 >> 4)\<close> is 0x3402, where the argument 0x1234 has the byte
  reversal 0x3412; \<open>CORK_SWAP_UINT32(x >> 8)\<close> with a 64-bit \<open>x\<close> of value 2^32 is 0,
  where the argument 0x01000000 has the byte reversal 1; \<open>CORK_SWAP_UINT64(a / b)\<close>
  with \<open>int\<close> operands 6 and -2 is 0, where the argument -3 has the byte reversal
  0xFDFFFFFFFFFFFFFF of its value mod 2^64.
\<close>

theorem CORK_SWAP_casts_left_operand_only:
  "CORK_SWAP_UINT16_of_arg (Shift_right 0x12345 4) = 0x3402 \<and>
   arg_value (Shift_right 0x12345 4) = 0x1234 \<and>
   byte_reverse 2 (arg_value (Shift_right 0x12345 4) mod 2 ^ 16) = 0x3412 \<and>
   CORK_SWAP_UINT32_of_arg (Shift_right (2 ^ 32) 8) = 0 \<and>
   arg_value (Shift_right (2 ^ 32) 8) = 0x01000000 \<and>
   byte_reverse 4 (arg_value (Shift_right (2 ^ 32) 8) mod 2 ^ 32) = 1 \<and>
   CORK_SWAP_UINT64_of_arg (Divide 6 (- 2)) = 0 \<and>
   arg_value (Divide 6 (- 2)) = - 3 \<and>
   byte_reverse 8 (arg_value (Divide 6 (- 2)) mod 2 ^ 64) = 0xFDFFFFFFFFFFFFFF"
proof -
  have a: "arg_value (Shift_right 0x12345 4) = 0x1234"
    "arg_value (Shift_right (2 ^ 32) 8) = 0x01000000"
    "arg_value (Divide 6 (- 2)) = - 3"
    by (simp_all add: C_div_def)
  have "CORK_SWAP_UINT16_of_arg (Shift_right 0x12345 4) = 0x3402"
    by (simp add: CORK_SWAP_UINT16_of_arg_def uint16_t_def)
  moreover have "CORK_SWAP_UINT32_of_arg (Shift_right (2 ^ 32) 8) = 0"
    by (simp add: CORK_SWAP_UINT32_of_arg_def uint32_t_def)
  moreover have "CORK_SWAP_UINT64_of_arg (Divide 6 (- 2)) = 0"
    by (simp add: CORK_SWAP_UINT64_of_arg_def uint64_t_def word_div_def)
  moreover have "byte_reverse 2 (0x1234 mod 2 ^ 16) = 0x3412"
    by (simp add: byte_reverse_def nth_byte_def eval_nat_numeral)
  moreover have "byte_reverse 4 (0x01000000 mod 2 ^ 32) = 1"
    by (simp add: byte_reverse_def nth_byte_def eval_nat_numeral)
  moreover have "byte_reverse 8 (- 3 mod 2 ^ 64) = 0xFDFFFFFFFFFFFFFF"
    by (simp add: byte_reverse_def nth_byte_def eval_nat_numeral)
  ultimately show ?thesis
    by (simp only: a simp_thms)
qed

subsection \<open>Claims about endianness detection\<close>

text \<open>
  Where \<open>CORK_HOST_ENDIANNESS\<close> does get defined, the header behaves as documented:
  host and other endianness are the two constants, they differ, and the names are
  \<open>big\<close> and \<open>little\<close> in the matching order.
\<close>

lemma CORK_BIG_LITTLE_distinct: "CORK_BIG_ENDIAN \<noteq> CORK_LITTLE_ENDIAN"
  by (simp add: CORK_BIG_ENDIAN_def CORK_LITTLE_ENDIAN_def)

lemma detect_CORK_HOST_ENDIANNESS_Some:
  assumes "detect_CORK_HOST_ENDIANNESS p = Inr (Some h)"
  shows "h = CORK_BIG_ENDIAN \<or> h = CORK_LITTLE_ENDIAN"
  using assms by (auto simp add: detect_CORK_HOST_ENDIANNESS_def split: if_splits)

lemma byte_order_h_resolved:
  assumes "byte_order_h p = Inr m" and "CORK_HOST_ENDIANNESS m = Some h"
  shows "\<exists>h'. CORK_OTHER_ENDIANNESS m = Some h' \<and> h' \<noteq> h \<and>
           {h, h'} = {CORK_BIG_ENDIAN, CORK_LITTLE_ENDIAN} \<and>
           CORK_HOST_ENDIANNESS_NAME m =
             Some (if h = CORK_BIG_ENDIAN then ''big'' else ''little'') \<and>
           CORK_OTHER_ENDIANNESS_NAME m =
             Some (if h' = CORK_BIG_ENDIAN then ''big'' else ''little'')"
proof -
  from assms obtain host where d: "detect_CORK_HOST_ENDIANNESS p = Inr host"
    and m: "m = define_other_endianness host"
    by (auto simp add: byte_order_h_def split: sum.splits)
  from m assms(2) have "host = Some h"
    by (simp add: define_other_endianness_def split: if_splits)
  with d have "h = CORK_BIG_ENDIAN \<or> h = CORK_LITTLE_ENDIAN"
    by (simp add: detect_CORK_HOST_ENDIANNESS_Some)
  with m \<open>host = Some h\<close> show ?thesis
    using CORK_BIG_LITTLE_distinct
    by (auto simp add: define_other_endianness_def cpp_value_def)
qed

lemma byte_order_h_unknown_platform:
  assumes "\<not> defined_linux p" and "\<not> (defined_APPLE p \<and> defined_MACH p)"
  shows "byte_order_h p = Inr (define_other_endianness None)"
  using assms by (auto simp add: byte_order_h_def detect_CORK_HOST_ENDIANNESS_def)

text \<open>
  C2. The claim: when the byte order of the build target cannot be determined,
  compilation halts with a static error, and in no configuration does the header compile
  with \<open>CORK_HOST_ENDIANNESS\<close> unresolved. On a platform that is neither Linux nor
  Mac OS X the header is preprocessed without reaching \<open>#error\<close>, and
  \<open>CORK_HOST_ENDIANNESS\<close> is left undefined: the outer conditional has no \<open>#else\<close>.
\<close>

theorem other_platform_compiles_unresolved:
  "detect_CORK_HOST_ENDIANNESS other_platform = Inr None \<and>
   byte_order_h other_platform \<noteq> Inl Cannot_determine_system_endianness"
  by (simp add: byte_order_h_def detect_CORK_HOST_ENDIANNESS_def other_platform_def)

text \<open>
  C8. The claim: whenever the header is preprocessed without error,
  \<open>CORK_HOST_ENDIANNESS\<close> and \<open>CORK_OTHER_ENDIANNESS\<close> are defined, differ, are together
  the two constants, and the names are \<open>big\<close> and \<open>little\<close> in the matching order. On
  a platform that is neither Linux nor Mac OS X the header is preprocessed without error
  and none of the four macros is defined.
\<close>

theorem other_platform_endianness_macros_undefined:
  "byte_order_h other_platform =
     Inr \<lparr>CORK_HOST_ENDIANNESS = None, CORK_OTHER_ENDIANNESS = None,
          CORK_HOST_ENDIANNESS_NAME = None, CORK_OTHER_ENDIANNESS_NAME = None\<rparr>"
  by (simp add: byte_order_h_def detect_CORK_HOST_ENDIANNESS_def other_platform_def
      define_other_endianness_def cpp_value_def CORK_BIG_ENDIAN_def CORK_LITTLE_ENDIAN_def)

subsection \<open>Claims about the directional conversions\<close>

lemmas conversion_defs =
  CORK_UINT16_BIG_TO_HOST_def CORK_UINT16_LITTLE_TO_HOST_def
  CORK_UINT32_BIG_TO_HOST_def CORK_UINT32_LITTLE_TO_HOST_def
  CORK_UINT64_BIG_TO_HOST_def CORK_UINT64_LITTLE_TO_HOST_def
  CORK_UINT16_HOST_TO_BIG_def CORK_UINT16_HOST_TO_LITTLE_def
  CORK_UINT32_HOST_TO_BIG_def CORK_UINT32_HOST_TO_LITTLE_def
  CORK_UINT64_HOST_TO_BIG_def CORK_UINT64_HOST_TO_LITTLE_def

lemmas in_place_conversion_defs =
  CORK_UINT16_BIG_TO_HOST_IN_PLACE_def CORK_UINT16_LITTLE_TO_HOST_IN_PLACE_def
  CORK_UINT32_BIG_TO_HOST_IN_PLACE_def CORK_UINT32_LITTLE_TO_HOST_IN_PLACE_def
  CORK_UINT64_BIG_TO_HOST_IN_PLACE_def CORK_UINT64_LITTLE_TO_HOST_IN_PLACE_def
  CORK_UINT16_HOST_TO_BIG_IN_PLACE_def CORK_UINT16_HOST_TO_LITTLE_IN_PLACE_def
  CORK_UINT32_HOST_TO_BIG_IN_PLACE_def CORK_UINT32_HOST_TO_LITTLE_IN_PLACE_def
  CORK_UINT64_HOST_TO_BIG_IN_PLACE_def CORK_UINT64_HOST_TO_LITTLE_IN_PLACE_def

lemmas eval_conversion_defs =
  eval_CORK_UINT16_BIG_TO_HOST_def eval_CORK_UINT16_LITTLE_TO_HOST_def
  eval_CORK_UINT32_BIG_TO_HOST_def eval_CORK_UINT32_LITTLE_TO_HOST_def
  eval_CORK_UINT64_BIG_TO_HOST_def eval_CORK_UINT64_LITTLE_TO_HOST_def
  eval_CORK_UINT16_HOST_TO_BIG_def eval_CORK_UINT16_HOST_TO_LITTLE_def
  eval_CORK_UINT32_HOST_TO_BIG_def eval_CORK_UINT32_HOST_TO_LITTLE_def
  eval_CORK_UINT64_HOST_TO_BIG_def eval_CORK_UINT64_HOST_TO_LITTLE_def

text \<open>
  C4. For every width and every value v: on a little-endian host the little-to-host and
  host-to-little conversions return v unchanged and the big-to-host and host-to-big
  conversions return the unconditional swap of v; on a big-endian host it is the other
  way round.
\<close>

theorem conversions_identity_or_swap:
  "CORK_UINT16_LITTLE_TO_HOST CORK_LITTLE_ENDIAN v16 = Some v16 \<and>
   CORK_UINT16_HOST_TO_LITTLE CORK_LITTLE_ENDIAN v16 = Some v16 \<and>
   CORK_UINT16_BIG_TO_HOST CORK_LITTLE_ENDIAN v16 = Some (CORK_SWAP_UINT16 v16) \<and>
   CORK_UINT16_HOST_TO_BIG CORK_LITTLE_ENDIAN v16 = Some (CORK_SWAP_UINT16 v16) \<and>
   CORK_UINT32_LITTLE_TO_HOST CORK_LITTLE_ENDIAN v32 = Some v32 \<and>
   CORK_UINT32_HOST_TO_LITTLE CORK_LITTLE_ENDIAN v32 = Some v32 \<and>
   CORK_UINT32_BIG_TO_HOST CORK_LITTLE_ENDIAN v32 = Some (CORK_SWAP_UINT32 v32) \<and>
   CORK_UINT32_HOST_TO_BIG CORK_LITTLE_ENDIAN v32 = Some (CORK_SWAP_UINT32 v32) \<and>
   CORK_UINT64_LITTLE_TO_HOST CORK_LITTLE_ENDIAN v64 = Some v64 \<and>
   CORK_UINT64_HOST_TO_LITTLE CORK_LITTLE_ENDIAN v64 = Some v64 \<and>
   CORK_UINT64_BIG_TO_HOST CORK_LITTLE_ENDIAN v64 = Some (CORK_SWAP_UINT64 v64) \<and>
   CORK_UINT64_HOST_TO_BIG CORK_LITTLE_ENDIAN v64 = Some (CORK_SWAP_UINT64 v64) \<and>
   CORK_UINT16_BIG_TO_HOST CORK_BIG_ENDIAN v16 = Some v16 \<and>
   CORK_UINT16_HOST_TO_BIG CORK_BIG_ENDIAN v16 = Some v16 \<and>
   CORK_UINT16_LITTLE_TO_HOST CORK_BIG_ENDIAN v16 = Some (CORK_SWAP_UINT16 v16) \<and>
   CORK_UINT16_HOST_TO_LITTLE CORK_BIG_ENDIAN v16 = Some (CORK_SWAP_UINT16 v16) \<and>
   CORK_UINT32_BIG_TO_HOST CORK_BIG_ENDIAN v32 = Some v32 \<and>
   CORK_UINT32_HOST_TO_BIG CORK_BIG_ENDIAN v32 = Some v32 \<and>
   CORK_UINT32_LITTLE_TO_HOST CORK_BIG_ENDIAN v32 = Some (CORK_SWAP_UINT32 v32) \<and>
   CORK_UINT32_HOST_TO_LITTLE CORK_BIG_ENDIAN v32 = Some (CORK_SWAP_UINT32 v32) \<and>
   CORK_UINT64_BIG_TO_HOST CORK_BIG_ENDIAN v64 = Some v64 \<and>
   CORK_UINT64_HOST_TO_BIG CORK_BIG_ENDIAN v64 = Some v64 \<and>
   CORK_UINT64_LITTLE_TO_HOST CORK_BIG_ENDIAN v64 = Some (CORK_SWAP_UINT64 v64) \<and>
   CORK_UINT64_HOST_TO_LITTLE CORK_BIG_ENDIAN v64 = Some (CORK_SWAP_UINT64 v64)"
  using CORK_BIG_LITTLE_distinct by (simp add: conversion_defs)



text \<open>
  C7. For every width, the host-to-big conversion is the same function as the big-to-host
  conversion and the host-to-little conversion is the same function as the little-to-host
  conversion, for the value-returning and for the in-place macros.
\<close>

theorem host_to_is_to_host:
  "CORK_UINT16_HOST_TO_BIG = CORK_UINT16_BIG_TO_HOST \<and>
   CORK_UINT32_HOST_TO_BIG = CORK_UINT32_BIG_TO_HOST \<and>
   CORK_UINT64_HOST_TO_BIG = CORK_UINT64_BIG_TO_HOST \<and>
   CORK_UINT16_HOST_TO_LITTLE = CORK_UINT16_LITTLE_TO_HOST \<and>
   CORK_UINT32_HOST_TO_LITTLE = CORK_UINT32_LITTLE_TO_HOST \<and>
   CORK_UINT64_HOST_TO_LITTLE = CORK_UINT64_LITTLE_TO_HOST \<and>
   (CORK_UINT16_HOST_TO_BIG_IN_PLACE ::
      int \<Rightarrow> 'x \<Rightarrow> ('x \<Rightarrow> 16 word) \<Rightarrow> ('x \<Rightarrow> 16 word) option) =
     CORK_UINT16_BIG_TO_HOST_IN_PLACE \<and>
   (CORK_UINT32_HOST_TO_BIG_IN_PLACE ::
      int \<Rightarrow> 'x \<Rightarrow> ('x \<Rightarrow> 32 word) \<Rightarrow> ('x \<Rightarrow> 32 word) option) =
     CORK_UINT32_BIG_TO_HOST_IN_PLACE \<and>
   (CORK_UINT64_HOST_TO_BIG_IN_PLACE ::
      int \<Rightarrow> 'x \<Rightarrow> ('x \<Rightarrow> 64 word) \<Rightarrow> ('x \<Rightarrow> 64 word) option) =
     CORK_UINT64_BIG_TO_HOST_IN_PLACE \<and>
   (CORK_UINT16_HOST_TO_LITTLE_IN_PLACE ::
      int \<Rightarrow> 'x \<Rightarrow> ('x \<Rightarrow> 16 word) \<Rightarrow> ('x \<Rightarrow> 16 word) option) =
     CORK_UINT16_LITTLE_TO_HOST_IN_PLACE \<and>
   (CORK_UINT32_HOST_TO_LITTLE_IN_PLACE ::
      int \<Rightarrow> 'x \<Rightarrow> ('x \<Rightarrow> 32 word) \<Rightarrow> ('x \<Rightarrow> 32 word) option) =
     CORK_UINT32_LITTLE_TO_HOST_IN_PLACE \<and>
   (CORK_UINT64_HOST_TO_LITTLE_IN_PLACE ::
      int \<Rightarrow> 'x \<Rightarrow> ('x \<Rightarrow> 64 word) \<Rightarrow> ('x \<Rightarrow> 64 word) option) =
     CORK_UINT64_LITTLE_TO_HOST_IN_PLACE"
  by (simp only: conversion_defs in_place_conversion_defs simp_thms)

text \<open>
  C6. For every width and every direction (unconditional swap, big-to-host,
  little-to-host, host-to-big, host-to-little) and every initial value v: after the
  in-place variant has run on a variable holding v, the variable holds the value that
  the value-returning variant yields on v. Where the host endianness is unresolved
  neither macro of a direction is defined.
\<close>

theorem in_place_agrees_with_value:
  fixes s16 :: "'x \<Rightarrow> 16 word" and s32 :: "'x \<Rightarrow> 32 word" and s64 :: "'x \<Rightarrow> 64 word"
  shows
    "uint (CORK_SWAP_IN_PLACE_UINT16 x s16 x) = CORK_SWAP_UINT16 (uint (s16 x)) \<and>
     uint (CORK_SWAP_IN_PLACE_UINT32 x s32 x) = CORK_SWAP_UINT32 (uint (s32 x)) \<and>
     uint (CORK_SWAP_IN_PLACE_UINT64 x s64 x) = CORK_SWAP_UINT64 (uint (s64 x)) \<and>
     map_option (\<lambda>s'. uint (s' x)) (CORK_UINT16_BIG_TO_HOST_IN_PLACE host x s16) =
       CORK_UINT16_BIG_TO_HOST host (uint (s16 x)) \<and>
     map_option (\<lambda>s'. uint (s' x)) (CORK_UINT16_LITTLE_TO_HOST_IN_PLACE host x s16) =
       CORK_UINT16_LITTLE_TO_HOST host (uint (s16 x)) \<and>
     map_option (\<lambda>s'. uint (s' x)) (CORK_UINT16_HOST_TO_BIG_IN_PLACE host x s16) =
       CORK_UINT16_HOST_TO_BIG host (uint (s16 x)) \<and>
     map_option (\<lambda>s'. uint (s' x)) (CORK_UINT16_HOST_TO_LITTLE_IN_PLACE host x s16) =
       CORK_UINT16_HOST_TO_LITTLE host (uint (s16 x)) \<and>
     map_option (\<lambda>s'. uint (s' x)) (CORK_UINT32_BIG_TO_HOST_IN_PLACE host x s32) =
       CORK_UINT32_BIG_TO_HOST host (uint (s32 x)) \<and>
     map_option (\<lambda>s'. uint (s' x)) (CORK_UINT32_LITTLE_TO_HOST_IN_PLACE host x s32) =
       CORK_UINT32_LITTLE_TO_HOST host (uint (s32 x)) \<and>
     map_option (\<lambda>s'. uint (s' x)) (CORK_UINT32_HOST_TO_BIG_IN_PLACE host x s32) =
       CORK_UINT32_HOST_TO_BIG host (uint (s32 x)) \<and>
     map_option (\<lambda>s'. uint (s' x)) (CORK_UINT32_HOST_TO_LITTLE_IN_PLACE host x s32) =
       CORK_UINT32_HOST_TO_LITTLE host (uint (s32 x)) \<and>
     map_option (\<lambda>s'. uint (s' x)) (CORK_UINT64_BIG_TO_HOST_IN_PLACE host x s64) =
       CORK_UINT64_BIG_TO_HOST host (uint (s64 x)) \<and>
     map_option (\<lambda>s'. uint (s' x)) (CORK_UINT64_LITTLE_TO_HOST_IN_PLACE host x s64) =
       CORK_UINT64_LITTLE_TO_HOST host (uint (s64 x)) \<and>
     map_option (\<lambda>s'. uint (s' x)) (CORK_UINT64_HOST_TO_BIG_IN_PLACE host x s64) =
       CORK_UINT64_HOST_TO_BIG host (uint (s64 x)) \<and>
     map_option (\<lambda>s'. uint (s' x)) (CORK_UINT64_HOST_TO_LITTLE_IN_PLACE host x s64) =
       CORK_UINT64_HOST_TO_LITTLE host (uint (s64 x))"
proof -
  have a: "uint (CORK_SWAP_IN_PLACE_UINT16 x s16 x) = CORK_SWAP_UINT16 (uint (s16 x))"
    using take_bit_CORK_SWAP_UINT16 [of "uint (s16 x)"]
    by (simp add: CORK_SWAP_IN_PLACE_UINT16_def uint16_t_def uint_word_of_int_eq)
  have b: "uint (CORK_SWAP_IN_PLACE_UINT32 x s32 x) = CORK_SWAP_UINT32 (uint (s32 x))"
    using take_bit_CORK_SWAP_UINT32 [of "uint (s32 x)"]
    by (simp add: CORK_SWAP_IN_PLACE_UINT32_def uint32_t_def uint_word_of_int_eq)
  have c: "uint (CORK_SWAP_IN_PLACE_UINT64 x s64 x) = CORK_SWAP_UINT64 (uint (s64 x))"
    using take_bit_CORK_SWAP_UINT64 [of "uint (s64 x)"]
    by (simp add: CORK_SWAP_IN_PLACE_UINT64_def uint64_t_def uint_word_of_int_eq)
  show ?thesis
    by (simp add: a b c conversion_defs in_place_conversion_defs)
qed

text \<open>
  C9. For every width and every value v, the value-returning swap and conversion macros
  do not change their operand: evaluated on a variable, they return their value and
  leave the store, and so the variable, as it was.
\<close>

theorem value_macros_leave_store:
  fixes s16 :: "'x \<Rightarrow> 16 word" and s32 :: "'x \<Rightarrow> 32 word" and s64 :: "'x \<Rightarrow> 64 word"
  shows
    "eval_CORK_SWAP_UINT16 x s16 = (CORK_SWAP_UINT16 (uint (s16 x)), s16) \<and>
     eval_CORK_SWAP_UINT32 x s32 = (CORK_SWAP_UINT32 (uint (s32 x)), s32) \<and>
     eval_CORK_SWAP_UINT64 x s64 = (CORK_SWAP_UINT64 (uint (s64 x)), s64) \<and>
     eval_CORK_UINT16_BIG_TO_HOST host x s16 =
       map_option (\<lambda>v. (v, s16)) (CORK_UINT16_BIG_TO_HOST host (uint (s16 x))) \<and>
     eval_CORK_UINT16_LITTLE_TO_HOST host x s16 =
       map_option (\<lambda>v. (v, s16)) (CORK_UINT16_LITTLE_TO_HOST host (uint (s16 x))) \<and>
     eval_CORK_UINT16_HOST_TO_BIG host x s16 =
       map_option (\<lambda>v. (v, s16)) (CORK_UINT16_HOST_TO_BIG host (uint (s16 x))) \<and>
     eval_CORK_UINT16_HOST_TO_LITTLE host x s16 =
       map_option (\<lambda>v. (v, s16)) (CORK_UINT16_HOST_TO_LITTLE host (uint (s16 x))) \<and>
     eval_CORK_UINT32_BIG_TO_HOST host x s32 =
       map_option (\<lambda>v. (v, s32)) (CORK_UINT32_BIG_TO_HOST host (uint (s32 x))) \<and>
     eval_CORK_UINT32_LITTLE_TO_HOST host x s32 =
       map_option (\<lambda>v. (v, s32)) (CORK_UINT32_LITTLE_TO_HOST host (uint (s32 x))) \<and>
     eval_CORK_UINT32_HOST_TO_BIG host x s32 =
       map_option (\<lambda>v. (v, s32)) (CORK_UINT32_HOST_TO_BIG host (uint (s32 x))) \<and>
     eval_CORK_UINT32_HOST_TO_LITTLE host x s32 =
       map_option (\<lambda>v. (v, s32)) (CORK_UINT32_HOST_TO_LITTLE host (uint (s32 x))) \<and>
     eval_CORK_UINT64_BIG_TO_HOST host x s64 =
       map_option (\<lambda>v. (v, s64)) (CORK_UINT64_BIG_TO_HOST host (uint (s64 x))) \<and>
     eval_CORK_UINT64_LITTLE_TO_HOST host x s64 =
       map_option (\<lambda>v. (v, s64)) (CORK_UINT64_LITTLE_TO_HOST host (uint (s64 x))) \<and>
     eval_CORK_UINT64_HOST_TO_BIG host x s64 =
       map_option (\<lambda>v. (v, s64)) (CORK_UINT64_HOST_TO_BIG host (uint (s64 x))) \<and>
     eval_CORK_UINT64_HOST_TO_LITTLE host x s64 =
       map_option (\<lambda>v. (v, s64)) (CORK_UINT64_HOST_TO_LITTLE host (uint (s64 x)))"
proof -
  have a: "eval_CORK_SWAP_UINT16 x s16 = (CORK_SWAP_UINT16 (uint (s16 x)), s16)"
    by (simp add: eval_CORK_SWAP_UINT16_def rvalue_def CORK_SWAP_UINT16_def)
  have b: "eval_CORK_SWAP_UINT32 x s32 = (CORK_SWAP_UINT32 (uint (s32 x)), s32)"
    by (simp add: eval_CORK_SWAP_UINT32_def rvalue_def CORK_SWAP_UINT32_def)
  have c: "eval_CORK_SWAP_UINT64 x s64 = (CORK_SWAP_UINT64 (uint (s64 x)), s64)"
    by (simp add: eval_CORK_SWAP_UINT64_def rvalue_def CORK_SWAP_UINT64_def)
  show ?thesis
    by (simp add: a b c conversion_defs eval_conversion_defs rvalue_def)
qed

end
